theory Spec2Isabelle
  imports Main "HOL-Library.Sublist"
begin

section \<open>The suggestion lifecycle engine of react-ghost-text\<close>

text \<open>
  A shallow embedding of \<^verbatim>\<open>src/AutocompleteTextbox.tsx\<close> (the current version of the
  component, the one with the \<^verbatim>\<open>AbortController\<close>) and of the helpers it calls in
  \<^verbatim>\<open>utils.tsx\<close>. The component is single-threaded and event-driven: every handler is a
  function from the state before to the state after, the asynchronous function
  \<^verbatim>\<open>showSuggestionAtCaret\<close> is cut at its one \<^verbatim>\<open>await\<close> into the part that runs
  up to the call of the provider and the continuation that runs when the promise settles.

  Strings are lists of characters standing for JavaScript's code units; the
  non-breaking space is \<open>CHR 0xA0\<close>. Identifiers (\<^verbatim>\<open>'s-' + uuidv4()\<close>) are natural
  numbers drawn from a counter. The component is taken as mounted (\<^verbatim>\<open>textbox.current\<close>
  is the element).
\<close>

subsection \<open>Errors and notifications\<close>

datatype error =
    IndexSizeError        \<comment> \<open>\<^verbatim>\<open>selection.getRangeAt(0)\<close> on a selection without range\<close>
  | AssertionError        \<comment> \<open>a failed \<^verbatim>\<open>assert(...)\<close>\<close>
  | ProviderError string  \<comment> \<open>whatever the supplied \<^verbatim>\<open>getSuggestion\<close> threw or rejected with\<close>

datatype SuggestionRemovalReason = IMPLICIT | EXPLICIT | SYSTEM

text \<open>
  Everything the component does to the outside: the four optional callbacks (the entry
  records the call \<^verbatim>\<open>onX?.(...)\<close>, made when the callback is supplied), the call of
  the supplied \<^verbatim>\<open>getSuggestion\<close> with the index of the abort controller whose signal
  it is handed, and an exception or promise rejection that no handler of the component
  catches. \<^verbatim>\<open>onContentChange\<close> is handed \<^verbatim>\<open>innerHTML\<close>; of that string the model
  keeps the suggestion elements it contains.
\<close>

datatype effect =
    OnSuggestionShown nat nat int string string
      \<comment> \<open>\<^verbatim>\<open>id\<close>, \<^verbatim>\<open>timeShown\<close>, \<^verbatim>\<open>latency\<close>, \<^verbatim>\<open>suggestionText\<close>, \<^verbatim>\<open>leadingText\<close>\<close>
  | OnSuggestionAccepted nat nat
  | OnSuggestionRejected nat nat SuggestionRemovalReason
  | OnContentChange "(nat \<times> string) list"
  | GetSuggestionCalled string nat
  | Uncaught error

subsection \<open>The surface: selection and caret\<close>

text \<open>
  What \<^verbatim>\<open>isCaretAtLineEnd\<close> reads of \<^verbatim>\<open>selection.anchorNode\<close>: for a text node the
  length of its text, whether its parent is the textbox, and what
  \<^verbatim>\<open>parentElement.closest("div")\<close> finds.
\<close>

datatype closest_div =
    NoDiv
  | TextboxDiv
  | OtherDiv (childWithNode: bool) (nextSiblingText: "string option")

datatype anchor_node =
    NullNode
  | TextNode (textLength: nat) (parentIsTextbox: bool) (closestDiv: closest_div)
  | ElementNode

text \<open>
  A range of the selection: where it lies (in the textbox, in front of it or behind it
  in the document), whether \<^verbatim>\<open>range.setStart(element, 0)\<close> raises, and the
  \<^verbatim>\<open>innerText\<close> of the contents from the start of the element to the end of the
  range, once \<^verbatim>\<open></div><div>\<close> and \<^verbatim>\<open><br>\<close> are replaced by newlines.
\<close>

datatype caret_place = InTextbox | BeforeTextbox | AfterTextbox

record caret_range =
  place :: caret_place
  setStartThrows :: bool
  innerText :: string

text \<open>\<^verbatim>\<open>textbox.contains(range.startContainer)\<close>\<close>

definition startInTextbox :: "caret_range \<Rightarrow> bool" where
  "startInTextbox rng = (place rng = InTextbox)"

record selection =
  isCollapsed :: bool
  ranges :: "caret_range list"
  anchorNode :: anchor_node
  anchorOffset :: nat

text \<open>\<^verbatim>\<open>getCaretAsRange\<close>; \<^verbatim>\<open>window.getSelection()\<close> is \<open>None\<close> for \<^verbatim>\<open>null\<close>.
  \<^verbatim>\<open>getRangeAt(0)\<close> raises when the selection holds no range.\<close>

definition getRangeAt :: "selection \<Rightarrow> nat \<Rightarrow> error + caret_range" where
  "getRangeAt sel i = (if i < length (ranges sel) then Inr (ranges sel ! i) else Inl IndexSizeError)"

definition getCaretAsRange :: "selection option \<Rightarrow> error + caret_range option" where
  "getCaretAsRange getSelection =
     (case getSelection of
        None \<Rightarrow> Inr None
      | Some sel \<Rightarrow>
          if \<not> isCollapsed sel then Inr None
          else (case getRangeAt sel 0 of Inl e \<Rightarrow> Inl e | Inr rng \<Rightarrow> Inr (Some rng)))"

definition replace_nbsp :: "string \<Rightarrow> string" where
  "replace_nbsp t = map (\<lambda>c. if c = CHR 0xA0 then CHR '' '' else c) t"

text \<open>
  \<^verbatim>\<open>getTextUptilCaretInElement\<close>: the text it returns. For a caret in front of the
  textbox \<^verbatim>\<open>range.setStart(element, 0)\<close> moves the end of the range along with its
  start, and the cloned contents are empty.
\<close>

definition getTextUptilCaretInElement :: "selection option \<Rightarrow> error + string" where
  "getTextUptilCaretInElement getSelection =
     (case getCaretAsRange getSelection of
        Inl e \<Rightarrow> Inl e
      | Inr None \<Rightarrow> Inr []
      | Inr (Some rng) \<Rightarrow>
          if setStartThrows rng then Inr []
          else if place rng = BeforeTextbox then Inr []
          else Inr (replace_nbsp (innerText rng)))"

text \<open>
  \<^verbatim>\<open>getTextUptilCaretInElement\<close>: what it leaves of the selection. The range is the
  live range of the selection; \<^verbatim>\<open>setStart\<close> and \<^verbatim>\<open>collapse(false)\<close> bring a
  caret in or behind the textbox back to where it was, and leave a caret that was in
  front of the textbox at the start of the textbox.
\<close>

definition selectionAfterRead :: "selection option \<Rightarrow> selection option" where
  "selectionAfterRead getSelection =
     (case getSelection of
        None \<Rightarrow> None
      | Some sel \<Rightarrow>
          if \<not> isCollapsed sel then Some sel
          else (case ranges sel of
                  [] \<Rightarrow> Some sel
                | rng # rest \<Rightarrow>
                    if setStartThrows rng \<or> place rng \<noteq> BeforeTextbox then Some sel
                    else Some (sel\<lparr>ranges := rng\<lparr>place := InTextbox, innerText := []\<rparr> # rest,
                                   anchorNode := ElementNode, anchorOffset := 0\<rparr>)))"

text \<open>\<^verbatim>\<open>isCaretAtLineEnd\<close>, with its assertions.\<close>

definition isCaretAtLineEnd :: "selection \<Rightarrow> error + bool" where
  "isCaretAtLineEnd sel =
     (case anchorNode sel of
        NullNode \<Rightarrow> Inr False
      | TextNode len parentTextbox closest \<Rightarrow>
          if len > anchorOffset sel then Inr False
          else if parentTextbox then Inr True
          else (case closest of
                  NoDiv \<Rightarrow> Inl AssertionError
                | TextboxDiv \<Rightarrow> Inr True
                | OtherDiv found sibling \<Rightarrow>
                    if \<not> found then Inl AssertionError
                    else (case sibling of
                            None \<Rightarrow> Inr True
                          | Some t \<Rightarrow> if t \<noteq> [] then Inr False else Inr True))
      | ElementNode \<Rightarrow> Inr True)"

subsection \<open>The debounce delay\<close>

text \<open>\<^verbatim>\<open>const DEBOUNCE_TIME = debounceTime || 1000\<close>; the prop is \<^verbatim>\<open>undefined\<close> or a
  number, here an integer number of milliseconds, of which 0 is the falsy one.\<close>

definition DEBOUNCE_TIME :: "int option \<Rightarrow> int" where
  "DEBOUNCE_TIME debounceTime =
     (case debounceTime of None \<Rightarrow> 1000 | Some d \<Rightarrow> if d = 0 then 1000 else d)"

subsection \<open>The suggestion cache\<close>

text \<open>
  Modelled from the spec: the third-party \<^verbatim>\<open>LRUCache<string, string>({ max: 25 })\<close> is
  not part of the repository. Entries are kept most recently used first; \<open>get\<close>
  promotes the entry it finds, \<open>set\<close> puts the entry first and drops the least recently
  used one beyond the capacity.
\<close>

type_synonym lru = "(string \<times> string) list"

definition lru_max :: nat where
  "lru_max = 25"

definition lru_get :: "lru \<Rightarrow> string \<Rightarrow> string option \<times> lru" where
  "lru_get c k =
     (case map_of c k of
        None \<Rightarrow> (None, c)
      | Some v \<Rightarrow> (Some v, (k, v) # filter (\<lambda>p. fst p \<noteq> k) c))"

definition lru_set :: "lru \<Rightarrow> string \<Rightarrow> string \<Rightarrow> lru" where
  "lru_set c k v = take lru_max ((k, v) # filter (\<lambda>p. fst p \<noteq> k) c)"

subsection \<open>The state of the component\<close>

text \<open>
  A call of the provider that has not settled yet: the continuation of
  \<^verbatim>\<open>showSuggestionAtCaret\<close> after its \<^verbatim>\<open>await\<close> keeps the local variables
  \<^verbatim>\<open>textUptilCaret\<close> and \<^verbatim>\<open>timeBefore\<close>; \<open>signal\<close> is the index of the controller
  created for the call.
\<close>

record pending_fetch =
  signal :: nat
  textUptilCaret :: string
  timeBefore :: nat

text \<open>
  The props the handlers read, the refs, the surface and the outside world.
  \<open>timer\<close> is the delay of the scheduled call of \<^verbatim>\<open>showSuggestionAtCaret\<close> that is
  still live, if there is one (the only \<^verbatim>\<open>setTimeout\<close> that schedules it follows a
  \<^verbatim>\<open>clearTimeout\<close> in the same handler). \<open>controllers\<close> holds the \<^verbatim>\<open>aborted\<close> flag
  of every \<^verbatim>\<open>AbortController\<close> created, \<open>abortController\<close> is the index of
  \<^verbatim>\<open>abortController.current\<close>. \<open>markers\<close> are the elements that
  \<^verbatim>\<open>querySelectorAll('[data-suggestionid]')\<close> finds, with their text, in document
  order. \<open>now\<close> is the clock that \<^verbatim>\<open>Date.now()\<close> reads. It moves between handlers and
  while a promise is awaited (the event \<open>Tick\<close>), and inside \<^verbatim>\<open>showSuggestionAtCaret\<close>
  between the read of \<^verbatim>\<open>timeBefore\<close> and the read of \<^verbatim>\<open>timeAfter\<close>, the two reads
  whose difference is reported: \<open>drift\<close> lists by how much it will have moved at each
  of the coming reads of \<^verbatim>\<open>timeAfter\<close>.
\<close>

record state =
  disableAutocomplete :: bool
  debounceTime :: "int option"
  timer :: "int option"
  disableSelectionEvent :: bool
  controllers :: "bool list"
  abortController :: nat
  suggestionCache :: lru
  pending :: "pending_fetch list"
  windowSelection :: "selection option"
  markers :: "(nat \<times> string) list"
  trace :: "effect list"
  now :: nat
  drift :: "nat list"
  uuid :: nat

definition nextDrift :: "state \<Rightarrow> nat" where
  "nextDrift s = (case drift s of [] \<Rightarrow> 0 | d # ds \<Rightarrow> d)"

definition readClock :: "state \<Rightarrow> state" where
  "readClock s = s\<lparr>now := now s + nextDrift s, drift := tl (drift s)\<rparr>"

definition emit :: "effect list \<Rightarrow> state \<Rightarrow> state" where
  "emit es s = s\<lparr>trace := trace s @ es\<rparr>"

definition isSuggestionDisplayed :: "state \<Rightarrow> bool" where
  "isSuggestionDisplayed s = (length (markers s) > 0)"

definition getCurrentSuggestionElement :: "state \<Rightarrow> (nat \<times> string) option" where
  "getCurrentSuggestionElement s = (case markers s of [] \<Rightarrow> None | m # _ \<Rightarrow> Some m)"

definition removeSuggestionIfDisplayed :: "SuggestionRemovalReason \<Rightarrow> state \<Rightarrow> state" where
  "removeSuggestionIfDisplayed reason s =
     emit (if reason \<noteq> SYSTEM
           then map (\<lambda>m. OnSuggestionRejected (fst m) (now s) reason) (markers s)
           else [])
       (s\<lparr>markers := []\<rparr>)"

subsection \<open>Insertion at the caret\<close>

datatype node = SuggestionElement nat string | PlainText string

fun textContent :: "node \<Rightarrow> string" where
  "textContent (SuggestionElement i t) = t"
| "textContent (PlainText t) = t"

text \<open>\<^verbatim>\<open>range.collapse(false)\<close> after an insertion leaves the caret behind the inserted
  node: its text now precedes the caret.\<close>

definition caretBehind :: "string \<Rightarrow> selection \<Rightarrow> selection" where
  "caretBehind t sel =
     (case ranges sel of
        [] \<Rightarrow> sel
      | rng # rest \<Rightarrow> sel\<lparr>ranges := rng\<lparr>innerText := innerText rng @ t\<rparr> # rest\<rparr>)"

text \<open>
  \<^verbatim>\<open>insertNodeAtCaret(nodeToInsert, textbox, caretToStart)\<close>. A suggestion element is
  inserted at the caret, in front of what follows the caret. The replacement of
  non-breaking spaces in the text node before the caret (the fourth parameter) changes
  nothing that \<open>getTextUptilCaretInElement\<close> returns and is left out.
\<close>

definition insertNodeAtCaret :: "node \<Rightarrow> bool \<Rightarrow> state \<Rightarrow> error + (bool \<times> state)" where
  "insertNodeAtCaret nodeToInsert caretToStart s =
     (case getCaretAsRange (windowSelection s) of
        Inl e \<Rightarrow> Inl e
      | Inr None \<Rightarrow> Inr (False, s)
      | Inr (Some rng) \<Rightarrow>
          if \<not> startInTextbox rng then Inr (False, s)
          else
            let s1 = (case nodeToInsert of
                        SuggestionElement i t \<Rightarrow> s\<lparr>markers := (i, t) # markers s\<rparr>
                      | PlainText t \<Rightarrow> s);
                s2 = (if caretToStart then s1
                      else s1\<lparr>windowSelection :=
                             map_option (caretBehind (textContent nodeToInsert)) (windowSelection s1)\<rparr>)
            in Inr (True, s2))"

subsection \<open>showSuggestionAtCaret\<close>

text \<open>The argument of \<^verbatim>\<open>showSuggestionAtCaret\<close>: the \<^verbatim>\<open>getSuggestion\<close> prop, or the
  closure \<^verbatim>\<open>() => remainingSuggestion\<close> of \<^verbatim>\<open>handleInput\<close>.\<close>

datatype provider = GetSuggestionProp | Remaining string

text \<open>From \<^verbatim>\<open>const timeAfter = Date.now()\<close> to the end: the read of the clock, which
  has moved since \<^verbatim>\<open>timeBefore\<close> was read, the staleness check, the insertion and the
  notification.\<close>

definition showSuggestionAtCaret_display :: "string \<Rightarrow> string \<Rightarrow> nat \<Rightarrow> state \<Rightarrow> state" where
  "showSuggestionAtCaret_display leading suggestion started s0 =
     (let s = readClock s0;
          timeAfter = now s
      in case getTextUptilCaretInElement (windowSelection s) of
        Inl e \<Rightarrow> emit [Uncaught e] s
      | Inr textUptilCaretAfterFetch \<Rightarrow>
          let s' = s\<lparr>windowSelection := selectionAfterRead (windowSelection s)\<rparr>
          in if leading \<noteq> textUptilCaretAfterFetch then s'
          else
            let suggestionId = uuid s';
                s1 = s'\<lparr>uuid := Suc (uuid s')\<rparr>
            in (case insertNodeAtCaret (SuggestionElement suggestionId suggestion) True s1 of
                  Inl e \<Rightarrow> emit [Uncaught e] s1
                | Inr (isSuccessfullyInserted, s2) \<Rightarrow>
                    if isSuccessfullyInserted
                    then emit [OnSuggestionShown suggestionId (now s2)
                                 (int timeAfter - int started) suggestion leading] s2
                    else s2))"

text \<open>
  From the start to the \<^verbatim>\<open>await\<close>. On a cache hit the function runs to its end and
  nothing is pending. On a miss a new controller is created and the provider is called:
  the result is the state at the \<^verbatim>\<open>await\<close> and the suspended continuation.
\<close>

definition showSuggestionAtCaret_begin :: "provider \<Rightarrow> state \<Rightarrow> state \<times> pending_fetch option" where
  "showSuggestionAtCaret_begin getSuggestion s =
     (let s0 = removeSuggestionIfDisplayed SYSTEM s in
      case getTextUptilCaretInElement (windowSelection s0) of
        Inl e \<Rightarrow> (emit [Uncaught e] s0, None)
      | Inr leading \<Rightarrow>
          let s1 = s0\<lparr>windowSelection := selectionAfterRead (windowSelection s0)\<rparr>;
              started = now s1;
              (suggestionText, c) = lru_get (suggestionCache s1) leading;
              s2 = s1\<lparr>suggestionCache := c\<rparr>
          in if suggestionText \<noteq> None \<and> suggestionText \<noteq> Some []
             then (showSuggestionAtCaret_display leading (the suggestionText) started s2, None)
             else
               let ctl = length (controllers s2);
                   s3 = s2\<lparr>controllers := controllers s2 @ [False], abortController := ctl\<rparr>;
                   s4 = (case getSuggestion of
                           GetSuggestionProp \<Rightarrow> emit [GetSuggestionCalled leading ctl] s3
                         | Remaining r \<Rightarrow> s3)
               in (s4, Some \<lparr>signal = ctl, textUptilCaret = leading, timeBefore = started\<rparr>))"

text \<open>
  The continuation: the awaited promise is fulfilled with a string (\<open>Inr\<close>) or rejected
  (\<open>Inl\<close>; a provider that throws when called is the same case). The function has no
  \<^verbatim>\<open>try\<close>, and neither the timer callback nor \<^verbatim>\<open>handleInput\<close> catch what its
  promise is rejected with.
\<close>

definition showSuggestionAtCaret_resume :: "pending_fetch \<Rightarrow> error + string \<Rightarrow> state \<Rightarrow> state" where
  "showSuggestionAtCaret_resume p result s =
     (case result of
        Inl e \<Rightarrow> emit [Uncaught e] s
      | Inr suggestionText \<Rightarrow>
          if suggestionText = [] then s
          else showSuggestionAtCaret_display (textUptilCaret p) suggestionText (timeBefore p)
                 (s\<lparr>suggestionCache := lru_set (suggestionCache s) (textUptilCaret p) suggestionText\<rparr>))"

subsection \<open>The handlers\<close>

text \<open>
  \<^verbatim>\<open>handleInput\<close>; the argument is \<^verbatim>\<open>event.nativeEvent.data\<close> (\<open>None\<close> when it is
  \<^verbatim>\<open>null\<close> or absent). The closure handed to \<^verbatim>\<open>showSuggestionAtCaret\<close> returns a
  string, so the continuation behind the \<^verbatim>\<open>await\<close> runs as soon as the handler has
  returned, before any other event: it is run here, after the last statement.
\<close>

definition inputMatchesSuggestion :: "string option \<Rightarrow> string \<Rightarrow> bool" where
  "inputMatchesSuggestion justTyped suggestionText =
     (case justTyped of None \<Rightarrow> False | Some d \<Rightarrow> d \<noteq> [] \<and> prefix d suggestionText)"

definition handleInput :: "string option \<Rightarrow> state \<Rightarrow> state" where
  "handleInput justTyped s =
     (if disableAutocomplete s then emit [OnContentChange (markers s)] s
      else
        case (if isSuggestionDisplayed s then getCurrentSuggestionElement s else None) of
          Some (i, suggestionText) \<Rightarrow>
            if inputMatchesSuggestion justTyped suggestionText then
              let s1 = removeSuggestionIfDisplayed IMPLICIT s;
                  s2 = emit [OnContentChange (markers s1)] s1;
                  remainingSuggestion = drop (length (the justTyped)) suggestionText
              in if remainingSuggestion \<noteq> [] then
                   let (s3, k) = showSuggestionAtCaret_begin (Remaining remainingSuggestion) s2;
                       s4 = s3\<lparr>disableSelectionEvent := True\<rparr>
                   in (case k of
                         None \<Rightarrow> s4
                       | Some p \<Rightarrow> showSuggestionAtCaret_resume p (Inr remainingSuggestion) s4)
                 else s2
            else
              let s1 = removeSuggestionIfDisplayed IMPLICIT s
              in emit [OnContentChange (markers s1)] s1
        | None \<Rightarrow>
            let s1 = removeSuggestionIfDisplayed IMPLICIT s
            in emit [OnContentChange (markers s1)] s1)"

datatype key = Escape | Tab | OtherKey

text \<open>\<^verbatim>\<open>handleKeyDown\<close>. The \<^verbatim>\<open>input\<close> event that an accepted suggestion dispatches
  is handled at once, with no \<^verbatim>\<open>data\<close>.\<close>

definition handleKeyDown :: "key \<Rightarrow> state \<Rightarrow> state" where
  "handleKeyDown k s =
     (if disableAutocomplete s then s
      else case k of
        Escape \<Rightarrow> removeSuggestionIfDisplayed EXPLICIT s
      | Tab \<Rightarrow>
          (if \<not> isSuggestionDisplayed s then s
           else case getCurrentSuggestionElement s of
             None \<Rightarrow> s
           | Some (suggestionId, suggestionText) \<Rightarrow>
               if suggestionText = [] then emit [Uncaught AssertionError] s
               else
                 let s1 = removeSuggestionIfDisplayed SYSTEM s
                 in (case insertNodeAtCaret (PlainText suggestionText) False s1 of
                       Inl e \<Rightarrow> emit [Uncaught e] s1
                     | Inr (isInserted, s2) \<Rightarrow>
                         if \<not> isInserted then s2
                         else handleInput None (emit [OnSuggestionAccepted suggestionId (now s2)] s2)))
      | OtherKey \<Rightarrow> s)"

definition clearTimerAndAbortFetch :: "state \<Rightarrow> state" where
  "clearTimerAndAbortFetch s =
     s\<lparr>timer := None, controllers := (controllers s)[abortController s := True]\<rparr>"

definition handleSelection :: "state \<Rightarrow> state" where
  "handleSelection s =
     (if disableAutocomplete s then s
      else if disableSelectionEvent s then s\<lparr>disableSelectionEvent := False\<rparr>
      else
        let s1 = removeSuggestionIfDisplayed IMPLICIT s;
            s2 = clearTimerAndAbortFetch s1
        in case windowSelection s2 of
             None \<Rightarrow> s2
           | Some sel \<Rightarrow>
               if \<not> isCollapsed sel then s2
               else (case isCaretAtLineEnd sel of
                       Inl e \<Rightarrow> emit [Uncaught e] s2
                     | Inr showSuggestion \<Rightarrow>
                         if showSuggestion
                         then s2\<lparr>timer := Some (DEBOUNCE_TIME (debounceTime s2))\<rparr>
                         else s2))"

definition handleBlur :: "state \<Rightarrow> state" where
  "handleBlur s = clearTimerAndAbortFetch (removeSuggestionIfDisplayed IMPLICIT s)"

subsection \<open>Events\<close>

text \<open>The timer fires: the scheduled callback calls \<^verbatim>\<open>showSuggestionAtCaret\<close> with the
  \<^verbatim>\<open>getSuggestion\<close> prop; a call of the provider stays pending until it settles.\<close>

definition timerFires :: "state \<Rightarrow> state" where
  "timerFires s =
     (case timer s of
        None \<Rightarrow> s
      | Some d \<Rightarrow>
          let (s1, k) = showSuggestionAtCaret_begin GetSuggestionProp (s\<lparr>timer := None\<rparr>)
          in (case k of None \<Rightarrow> s1 | Some p \<Rightarrow> s1\<lparr>pending := pending s1 @ [p]\<rparr>))"

definition settle :: "nat \<Rightarrow> error + string \<Rightarrow> state \<Rightarrow> state" where
  "settle ctl result s =
     (case find (\<lambda>p. signal p = ctl) (pending s) of
        None \<Rightarrow> s
      | Some p \<Rightarrow>
          showSuggestionAtCaret_resume p result
            (s\<lparr>pending := filter (\<lambda>q. signal q \<noteq> ctl) (pending s)\<rparr>))"

text \<open>
  What happens to a mounted component: the four events of the element, the timer, a
  pending call of the provider that is fulfilled or rejected, and the outside changing
  what the handlers read (the browser moving the caret or changing the text before it
  dispatches its events, a new value of the \<^verbatim>\<open>disableAutocomplete\<close> prop, the clock
  and how it will move between the coming reads).
\<close>

datatype event =
    Input "string option"
  | KeyDown key
  | Select
  | Blur
  | TimerFires
  | Fulfilled nat string
  | Rejected nat string
  | SetSelection "selection option"
  | SetDisableAutocomplete bool
  | Tick nat
  | SetDrift "nat list"

fun step :: "event \<Rightarrow> state \<Rightarrow> state" where
  "step (Input d) s = handleInput d s"
| "step (KeyDown k) s = handleKeyDown k s"
| "step Select s = handleSelection s"
| "step Blur s = handleBlur s"
| "step TimerFires s = timerFires s"
| "step (Fulfilled ctl t) s = settle ctl (Inr t) s"
| "step (Rejected ctl e) s = settle ctl (Inl (ProviderError e)) s"
| "step (SetSelection sel) s = s\<lparr>windowSelection := sel\<rparr>"
| "step (SetDisableAutocomplete b) s = s\<lparr>disableAutocomplete := b\<rparr>"
| "step (Tick n) s = s\<lparr>now := now s + n\<rparr>"
| "step (SetDrift ds) s = s\<lparr>drift := ds\<rparr>"

fun run :: "event list \<Rightarrow> state \<Rightarrow> state" where
  "run [] s = s"
| "run (e # es) s = run es (step e s)"

text \<open>The component when it is mounted: nothing displayed, one controller, an empty
  cache.\<close>

definition init :: "bool \<Rightarrow> int option \<Rightarrow> state" where
  "init disable debounce =
     \<lparr>disableAutocomplete = disable, debounceTime = debounce, timer = None,
      disableSelectionEvent = False, controllers = [False], abortController = 0,
      suggestionCache = [], pending = [], windowSelection = None, markers = [],
      trace = [], now = 0, drift = [], uuid = 0\<rparr>"

text \<open>A caret in the textbox, at the end of its line, behind the text \<open>t\<close>.\<close>

definition caretAfter :: "string \<Rightarrow> selection" where
  "caretAfter t =
     \<lparr>isCollapsed = True,
      ranges = [\<lparr>place = InTextbox, setStartThrows = False, innerText = t\<rparr>],
      anchorNode = TextNode (length t) True TextboxDiv,
      anchorOffset = length t\<rparr>"

subsection \<open>Auxiliary notions\<close>

text \<open>The cache never holds an empty suggestion: only a non-empty result of the
  provider is stored.\<close>

definition cache_ok :: "state \<Rightarrow> bool" where
  "cache_ok s = (\<forall>p \<in> set (suggestionCache s). snd p \<noteq> [])"

text \<open>The caret settles behind \<open>t\<close>, the debounce timer elapses, the cache misses:
  the call of the provider for \<open>t\<close> is pending.\<close>

definition fetching :: "string \<Rightarrow> state" where
  "fetching t = run [SetSelection (Some (caretAfter t)), Select, TimerFires] (init False None)"

text \<open>The provider answers \<open>world\<close> after 120 ms and the suggestion is displayed behind
  \<open>hello\<close> and a space.\<close>

definition displayed :: state where
  "displayed =
     run [SetSelection (Some (caretAfter ''hello '')), Select, TimerFires, Tick 120,
          Fulfilled 1 ''world''] (init False None)"

text \<open>Effects among which there is no rejection and no call of the provider.\<close>

definition quiet :: "effect list \<Rightarrow> bool" where
  "quiet es =
     (\<forall>e \<in> set es. case e of
                       OnSuggestionRejected i t r \<Rightarrow> False
                     | GetSuggestionCalled k c \<Rightarrow> False
                     | _ \<Rightarrow> True)"

text \<open>The caret has settled and the debounce timer is armed.\<close>

definition armed :: state where
  "armed = run [SetSelection (Some (caretAfter ''hello '')), Select] (init False None)"

text \<open>
  Two calls of the provider overlap: the user types \<open>a\<close> and pauses (call 1), types
  \<open>b\<close> and pauses (call 2), deletes \<open>b\<close> and pauses (call 3); call 1 is fulfilled
  and its suggestion \<open>x\<close> is displayed while calls 2 and 3 are pending.
\<close>

definition overlapping :: state where
  "overlapping =
     run [SetSelection (Some (caretAfter ''a'')), Input (Some ''a''), Select, TimerFires,
          SetSelection (Some (caretAfter ''ab'')), Input (Some ''b''), Select, TimerFires,
          SetSelection (Some (caretAfter ''a'')), Input None, Select, TimerFires,
          Fulfilled 1 ''x''] (init False None)"

text \<open>\<^verbatim>\<open>abortController.current\<close> is one of the controllers created so far.\<close>

definition controller_ok :: "state \<Rightarrow> bool" where
  "controller_ok s = (abortController s < length (controllers s))"

section \<open>Properties\<close>

subsection \<open>What each operation leaves alone\<close>

lemmas engine_defs = init_def caretAfter_def timerFires_def settle_def handleInput_def
  handleKeyDown_def handleSelection_def handleBlur_def clearTimerAndAbortFetch_def
  showSuggestionAtCaret_begin_def showSuggestionAtCaret_resume_def
  showSuggestionAtCaret_display_def insertNodeAtCaret_def removeSuggestionIfDisplayed_def
  emit_def isSuggestionDisplayed_def getCurrentSuggestionElement_def
  inputMatchesSuggestion_def lru_get_def lru_set_def lru_max_def
  getTextUptilCaretInElement_def getCaretAsRange_def getRangeAt_def replace_nbsp_def
  isCaretAtLineEnd_def DEBOUNCE_TIME_def caretBehind_def readClock_def nextDrift_def
  selectionAfterRead_def startInTextbox_def

lemma emit_fields [simp]:
  "markers (emit es s) = markers s" "suggestionCache (emit es s) = suggestionCache s"
  "trace (emit es s) = trace s @ es" "controllers (emit es s) = controllers s"
  "abortController (emit es s) = abortController s" "timer (emit es s) = timer s"
  "pending (emit es s) = pending s" "windowSelection (emit es s) = windowSelection s"
  "disableAutocomplete (emit es s) = disableAutocomplete s" "now (emit es s) = now s"
  "uuid (emit es s) = uuid s" "disableSelectionEvent (emit es s) = disableSelectionEvent s"
  "debounceTime (emit es s) = debounceTime s" "drift (emit es s) = drift s"
  by (simp_all add: emit_def)

lemma readClock_fields [simp]:
  "markers (readClock s) = markers s" "suggestionCache (readClock s) = suggestionCache s"
  "trace (readClock s) = trace s" "controllers (readClock s) = controllers s"
  "abortController (readClock s) = abortController s" "timer (readClock s) = timer s"
  "pending (readClock s) = pending s" "windowSelection (readClock s) = windowSelection s"
  "disableAutocomplete (readClock s) = disableAutocomplete s"
  "uuid (readClock s) = uuid s" "disableSelectionEvent (readClock s) = disableSelectionEvent s"
  "debounceTime (readClock s) = debounceTime s"
  "now (readClock s) = now s + nextDrift s"
  by (simp_all add: readClock_def)

lemma remove_fields [simp]:
  "markers (removeSuggestionIfDisplayed r s) = []"
  "suggestionCache (removeSuggestionIfDisplayed r s) = suggestionCache s"
  "controllers (removeSuggestionIfDisplayed r s) = controllers s"
  "abortController (removeSuggestionIfDisplayed r s) = abortController s"
  "timer (removeSuggestionIfDisplayed r s) = timer s"
  "pending (removeSuggestionIfDisplayed r s) = pending s"
  "windowSelection (removeSuggestionIfDisplayed r s) = windowSelection s"
  "disableAutocomplete (removeSuggestionIfDisplayed r s) = disableAutocomplete s"
  "now (removeSuggestionIfDisplayed r s) = now s"
  "uuid (removeSuggestionIfDisplayed r s) = uuid s"
  "disableSelectionEvent (removeSuggestionIfDisplayed r s) = disableSelectionEvent s"
  "debounceTime (removeSuggestionIfDisplayed r s) = debounceTime s"
  "drift (removeSuggestionIfDisplayed r s) = drift s"
  by (simp_all add: removeSuggestionIfDisplayed_def)

lemma remove_trace:
  "trace (removeSuggestionIfDisplayed r s) =
     trace s @ (if r \<noteq> SYSTEM
                then map (\<lambda>m. OnSuggestionRejected (fst m) (now s) r) (markers s) else [])"
  by (simp add: removeSuggestionIfDisplayed_def)

lemma insert_frame:
  assumes "insertNodeAtCaret n b s = Inr (ok, s')"
  shows "suggestionCache s' = suggestionCache s" "trace s' = trace s"
    "controllers s' = controllers s" "abortController s' = abortController s"
    "timer s' = timer s" "pending s' = pending s" "now s' = now s" "uuid s' = uuid s"
    "disableAutocomplete s' = disableAutocomplete s"
    "disableSelectionEvent s' = disableSelectionEvent s" "debounceTime s' = debounceTime s"
    "drift s' = drift s"
  using assms
  by (auto simp: insertNodeAtCaret_def Let_def
        split: sum.splits option.splits if_splits node.splits)

lemma insert_markers:
  assumes "insertNodeAtCaret n b s = Inr (ok, s')"
  shows "markers s' = (case n of
                         SuggestionElement i t \<Rightarrow> if ok then (i, t) # markers s else markers s
                       | PlainText t \<Rightarrow> markers s)"
  using assms
  by (auto simp: insertNodeAtCaret_def Let_def
        split: sum.splits option.splits if_splits node.splits)

lemma display_stale:
  assumes "getTextUptilCaretInElement (windowSelection s) = Inr current" "current \<noteq> leading"
  shows "markers (showSuggestionAtCaret_display leading t b s) = markers s"
    and "trace (showSuggestionAtCaret_display leading t b s) = trace s"
  using assms by (simp_all add: showSuggestionAtCaret_display_def Let_def)

text \<open>Reading the text a second time gives the same text.\<close>

lemma read_twice:
  assumes "getTextUptilCaretInElement ws = Inr L"
  shows "getTextUptilCaretInElement (selectionAfterRead ws) = Inr L"
  using assms
  by (auto simp: getTextUptilCaretInElement_def getCaretAsRange_def getRangeAt_def
        selectionAfterRead_def replace_nbsp_def
        split: option.splits if_splits list.splits sum.splits)

lemma display_cache [simp]:
  "suggestionCache (showSuggestionAtCaret_display leading t b s) = suggestionCache s"
  by (auto simp: showSuggestionAtCaret_display_def Let_def
        split: sum.splits prod.splits dest!: insert_frame(1))

text \<open>A pending call remembers the text that preceded the caret when it was issued.\<close>

lemma begin_pending_leading:
  assumes "showSuggestionAtCaret_begin g s = (s', Some p)"
  shows "getTextUptilCaretInElement (windowSelection s) = Inr (textUptilCaret p)"
  using assms
  by (auto simp: showSuggestionAtCaret_begin_def Let_def split: sum.splits prod.splits if_splits)

lemma fetching_eval:
  "fetching t =
     \<lparr>disableAutocomplete = False, debounceTime = None, timer = None,
      disableSelectionEvent = False, controllers = [True, False], abortController = 1,
      suggestionCache = [],
      pending = [\<lparr>signal = 1, textUptilCaret = replace_nbsp t, timeBefore = 0\<rparr>],
      windowSelection = Some (caretAfter t), markers = [],
      trace = [GetSuggestionCalled (replace_nbsp t) 1], now = 0, drift = [], uuid = 0\<rparr>"
  by (simp add: fetching_def engine_defs)

subsection \<open>The cache holds no empty suggestion\<close>

lemma lru_get_ok:
  assumes "\<forall>p \<in> set c. snd p \<noteq> []"
  shows "\<forall>p \<in> set (snd (lru_get c k)). snd p \<noteq> []"
    and "fst (lru_get c k) = Some v \<Longrightarrow> v \<noteq> []"
  using assms
  by (auto simp: lru_get_def split: option.splits dest!: map_of_SomeD)

lemma lru_set_ok:
  assumes "\<forall>p \<in> set c. snd p \<noteq> []" "v \<noteq> []"
  shows "\<forall>p \<in> set (lru_set c k v). snd p \<noteq> []"
  using assms
  by (auto simp: lru_set_def dest!: in_set_takeD)

lemma cache_ok_simps [simp]:
  "cache_ok (emit es s) = cache_ok s"
  "cache_ok (removeSuggestionIfDisplayed r s) = cache_ok s"
  "cache_ok (showSuggestionAtCaret_display L t b s) = cache_ok s"
  "cache_ok (s\<lparr>disableSelectionEvent := f\<rparr>) = cache_ok s"
  "cache_ok (s\<lparr>timer := tm\<rparr>) = cache_ok s"
  "cache_ok (s\<lparr>pending := ps\<rparr>) = cache_ok s"
  "cache_ok (s\<lparr>windowSelection := ws\<rparr>) = cache_ok s"
  "cache_ok (s\<lparr>disableAutocomplete := da\<rparr>) = cache_ok s"
  "cache_ok (s\<lparr>now := n\<rparr>) = cache_ok s"
  "cache_ok (s\<lparr>drift := ds\<rparr>) = cache_ok s"
  "cache_ok (clearTimerAndAbortFetch s) = cache_ok s"
  by (simp_all add: cache_ok_def clearTimerAndAbortFetch_def)

lemma begin_cache:
  "suggestionCache (fst (showSuggestionAtCaret_begin g s)) = suggestionCache s
   \<or> (\<exists>L. suggestionCache (fst (showSuggestionAtCaret_begin g s))
              = snd (lru_get (suggestionCache s) L))"
  by (auto simp: showSuggestionAtCaret_begin_def Let_def split_beta
        split: sum.splits provider.splits)

lemma cache_ok_begin:
  assumes "showSuggestionAtCaret_begin g s = (s', k)" and "cache_ok s"
  shows "cache_ok s'"
proof -
  have ok: "\<forall>p \<in> set (suggestionCache s). snd p \<noteq> []"
    using assms(2) by (simp add: cache_ok_def)
  have s': "s' = fst (showSuggestionAtCaret_begin g s)"
    using assms(1) by simp
  from begin_cache [of g s] show ?thesis
  proof
    assume "suggestionCache (fst (showSuggestionAtCaret_begin g s)) = suggestionCache s"
    with ok s' show ?thesis by (simp add: cache_ok_def)
  next
    assume "\<exists>L. suggestionCache (fst (showSuggestionAtCaret_begin g s))
              = snd (lru_get (suggestionCache s) L)"
    then obtain L where "suggestionCache s' = snd (lru_get (suggestionCache s) L)"
      using s' by auto
    with lru_get_ok(1) [OF ok, of L] show ?thesis by (simp add: cache_ok_def)
  qed
qed

lemma cache_ok_resume:
  assumes "cache_ok s"
  shows "cache_ok (showSuggestionAtCaret_resume p r s)"
  using assms lru_set_ok [of "suggestionCache s"]
  by (auto simp: showSuggestionAtCaret_resume_def cache_ok_def split: sum.splits)

lemma cache_ok_insert:
  assumes "insertNodeAtCaret n b s = Inr (ok, s')"
  shows "cache_ok s' = cache_ok s"
  using insert_frame(1) [OF assms] by (simp add: cache_ok_def)

lemma cache_ok_handleInput:
  assumes "cache_ok s"
  shows "cache_ok (handleInput d s)"
  using assms
  by (auto simp: handleInput_def Let_def cache_ok_resume
        split: option.splits prod.splits dest: cache_ok_begin)

lemma cache_ok_handleKeyDown:
  assumes "cache_ok s"
  shows "cache_ok (handleKeyDown k s)"
  using assms
  by (auto simp: handleKeyDown_def Let_def cache_ok_handleInput cache_ok_insert
        split: key.splits option.splits prod.splits sum.splits)

lemma cache_ok_handleSelection:
  assumes "cache_ok s"
  shows "cache_ok (handleSelection s)"
  using assms
  by (auto simp: handleSelection_def Let_def split: option.splits sum.splits)

lemma cache_ok_timerFires:
  assumes "cache_ok s"
  shows "cache_ok (timerFires s)"
proof (cases "timer s")
  case None
  then show ?thesis using assms by (simp add: timerFires_def)
next
  case (Some d)
  show ?thesis
    using Some assms
    by (auto simp: timerFires_def Let_def split: prod.splits option.splits dest: cache_ok_begin)
qed

lemma cache_ok_step:
  assumes "cache_ok s"
  shows "cache_ok (step e s)"
  using assms
  by (cases e)
     (auto simp: cache_ok_handleInput cache_ok_handleKeyDown cache_ok_handleSelection
        cache_ok_timerFires cache_ok_resume handleBlur_def settle_def split: option.splits)

lemma cache_ok_run:
  assumes "cache_ok s"
  shows "cache_ok (run es s)"
  using assms by (induction es arbitrary: s) (simp_all add: cache_ok_step)

lemma cache_ok_init: "cache_ok (init b d)"
  by (simp add: cache_ok_def init_def)

text \<open>After a read that returned a text, the caret can be taken as a range.\<close>

lemma caret_after_read:
  assumes "getTextUptilCaretInElement ws = Inr L"
  shows "\<exists>r. getCaretAsRange (selectionAfterRead ws) = Inr r"
  using read_twice [OF assms]
  by (auto simp: getTextUptilCaretInElement_def split: sum.splits)

lemma insert_suggestion:
  "insertNodeAtCaret (SuggestionElement i t) True s =
     (case getCaretAsRange (windowSelection s) of
        Inl e \<Rightarrow> Inl e
      | Inr None \<Rightarrow> Inr (False, s)
      | Inr (Some rng) \<Rightarrow>
          if startInTextbox rng then Inr (True, s\<lparr>markers := (i, t) # markers s\<rparr>)
          else Inr (False, s))"
  by (simp add: insertNodeAtCaret_def split: sum.splits option.splits)

lemma display_trace:
  "trace (showSuggestionAtCaret_display L t b s) = trace s
   \<or> (\<exists>e. trace (showSuggestionAtCaret_display L t b s) = trace s @ [Uncaught e])
   \<or> trace (showSuggestionAtCaret_display L t b s)
        = trace s @ [OnSuggestionShown (uuid s) (now s + nextDrift s)
                       (int (now s + nextDrift s) - int b) t L]"
  by (auto simp: showSuggestionAtCaret_display_def Let_def insert_suggestion
        split: sum.splits option.splits)

lemma display_no_throw:
  assumes "getTextUptilCaretInElement (windowSelection s) = Inr L'"
  shows "trace (showSuggestionAtCaret_display L t b s) = trace s
   \<or> trace (showSuggestionAtCaret_display L t b s)
        = trace s @ [OnSuggestionShown (uuid s) (now s + nextDrift s)
                       (int (now s + nextDrift s) - int b) t L]"
proof -
  from caret_after_read [OF assms] obtain r where
    "getCaretAsRange (selectionAfterRead (windowSelection s)) = Inr r" by blast
  with assms show ?thesis
    by (auto simp: showSuggestionAtCaret_display_def Let_def insert_suggestion
          split: option.splits)
qed

lemma begin_hit:
  assumes "getTextUptilCaretInElement (windowSelection s) = Inr L"
    and "map_of (suggestionCache s) L = Some t" and "t \<noteq> []"
  shows "showSuggestionAtCaret_begin g s =
           (showSuggestionAtCaret_display L t (now s)
              ((removeSuggestionIfDisplayed SYSTEM s)
                 \<lparr>windowSelection := selectionAfterRead (windowSelection s),
                  suggestionCache := (L, t) # filter (\<lambda>p. fst p \<noteq> L) (suggestionCache s)\<rparr>), None)"
  using assms
  by (simp add: showSuggestionAtCaret_begin_def Let_def lru_get_def)

lemma displayed_eval:
  "displayed =
     \<lparr>disableAutocomplete = False, debounceTime = None, timer = None,
      disableSelectionEvent = False, controllers = [True, False], abortController = 1,
      suggestionCache = [(''hello '', ''world'')], pending = [],
      windowSelection = Some (caretAfter ''hello ''), markers = [(0, ''world'')],
      trace = [GetSuggestionCalled ''hello '' 1,
               OnSuggestionShown 0 120 120 ''world'' ''hello ''],
      now = 120, drift = [], uuid = 1\<rparr>"
  by (simp add: displayed_def engine_defs)

subsection \<open>What the display path may emit\<close>

lemma display_quiet:
  "\<exists>es. trace (showSuggestionAtCaret_display L t b s) = trace s @ es \<and> quiet es"
  using display_trace [of L t b s] by (auto simp: quiet_def)

lemma begin_remaining_quiet:
  assumes "showSuggestionAtCaret_begin (Remaining r) s = (s', k)"
  shows "\<exists>es. trace s' = trace s @ es \<and> quiet es"
proof -
  have "\<exists>es. trace (showSuggestionAtCaret_display L t b (s0\<lparr>suggestionCache := c\<rparr>)) = trace s @ es \<and> quiet es"
    if "trace s0 = trace s" for L t b s0 c
    using display_quiet [of L t b "s0\<lparr>suggestionCache := c\<rparr>"] that by simp
  then show ?thesis
    using assms
    by (auto simp: showSuggestionAtCaret_begin_def Let_def split_beta remove_trace quiet_def
          split: sum.splits if_splits)
qed

lemma resume_quiet:
  "\<exists>es. trace (showSuggestionAtCaret_resume p (Inr t) s) = trace s @ es \<and> quiet es"
  using display_quiet [of "textUptilCaret p" t "timeBefore p"
          "s\<lparr>suggestionCache := lru_set (suggestionCache s) (textUptilCaret p) t\<rparr>"]
  by (auto simp: showSuggestionAtCaret_resume_def quiet_def)

lemma handleInput_partial:
  assumes "\<not> disableAutocomplete s" and "markers s = (i, t) # ms" and "d \<noteq> []" and "prefix d t"
  shows "handleInput (Some d) s =
     (let s2 = emit [OnContentChange []] (removeSuggestionIfDisplayed IMPLICIT s);
          r = drop (length d) t
      in if r \<noteq> [] then
           let (s3, k) = showSuggestionAtCaret_begin (Remaining r) s2;
               s4 = s3\<lparr>disableSelectionEvent := True\<rparr>
           in (case k of None \<Rightarrow> s4 | Some p \<Rightarrow> showSuggestionAtCaret_resume p (Inr r) s4)
         else s2)"
  using assms
  by (simp add: handleInput_def isSuggestionDisplayed_def getCurrentSuggestionElement_def
        inputMatchesSuggestion_def Let_def)

lemma redisplay_quiet:
  "\<exists>es. trace (let (s3, k) = showSuggestionAtCaret_begin (Remaining r) s2;
                    s4 = s3\<lparr>disableSelectionEvent := True\<rparr>
                in (case k of None \<Rightarrow> s4 | Some p \<Rightarrow> showSuggestionAtCaret_resume p (Inr r) s4))
          = trace s2 @ es \<and> quiet es"
proof (cases "showSuggestionAtCaret_begin (Remaining r) s2")
  case (Pair s3 k)
  from begin_remaining_quiet [OF Pair] obtain es1 where
    es1: "trace s3 = trace s2 @ es1" "quiet es1" by blast
  show ?thesis
  proof (cases k)
    case None
    with Pair es1 show ?thesis by auto
  next
    case (Some p)
    from resume_quiet [of p r "s3\<lparr>disableSelectionEvent := True\<rparr>"] obtain es2 where
      es2: "trace (showSuggestionAtCaret_resume p (Inr r) (s3\<lparr>disableSelectionEvent := True\<rparr>))
              = trace s3 @ es2" "quiet es2" by auto
    have "quiet (es1 @ es2)" using es1(2) es2(2) by (auto simp: quiet_def)
    with Pair Some es1 es2 show ?thesis by auto
  qed
qed

subsection \<open>The abort controllers are written, never read\<close>

lemma readClock_controllers:
  "readClock (s\<lparr>controllers := cs\<rparr>) = (readClock s)\<lparr>controllers := cs\<rparr>"
  by (simp add: readClock_def nextDrift_def)

lemma display_controllers:
  "showSuggestionAtCaret_display L t b (s\<lparr>controllers := cs\<rparr>)
     = (showSuggestionAtCaret_display L t b s)\<lparr>controllers := cs\<rparr>"
  by (auto simp: showSuggestionAtCaret_display_def Let_def insert_suggestion emit_def
        readClock_controllers split: sum.splits option.splits)

lemma resume_controllers:
  "showSuggestionAtCaret_resume p r (s\<lparr>controllers := cs\<rparr>)
     = (showSuggestionAtCaret_resume p r s)\<lparr>controllers := cs\<rparr>"
proof -
  have swap: "s\<lparr>controllers := cs, suggestionCache := c\<rparr>
                = s\<lparr>suggestionCache := c, controllers := cs\<rparr>" for c
    by simp
  show ?thesis
    by (auto simp: showSuggestionAtCaret_resume_def emit_def swap display_controllers
          split: sum.splits)
qed

lemma handleInput_nothing_displayed:
  assumes "markers s = []"
  shows "handleInput d s = emit [OnContentChange []] s"
  using assms
  by (simp add: handleInput_def isSuggestionDisplayed_def removeSuggestionIfDisplayed_def emit_def)

lemma handleKeyDown_frame:
  "controllers (handleKeyDown k s) = controllers s"
  "abortController (handleKeyDown k s) = abortController s"
  "timer (handleKeyDown k s) = timer s"
  "pending (handleKeyDown k s) = pending s"
proof -
  have ins: "controllers (handleInput None (emit es s2)) = controllers s
           \<and> abortController (handleInput None (emit es s2)) = abortController s
           \<and> timer (handleInput None (emit es s2)) = timer s
           \<and> pending (handleInput None (emit es s2)) = pending s"
    if "insertNodeAtCaret (PlainText t) False (removeSuggestionIfDisplayed SYSTEM s) = Inr (ok, s2)"
    for t ok s2 es
    using insert_frame [OF that] insert_markers [OF that]
    by (simp add: handleInput_nothing_displayed)
  show "controllers (handleKeyDown k s) = controllers s"
    "abortController (handleKeyDown k s) = abortController s"
    "timer (handleKeyDown k s) = timer s"
    "pending (handleKeyDown k s) = pending s"
    using ins
    by (auto simp: handleKeyDown_def Let_def insert_frame
          split: key.splits option.splits prod.splits sum.splits)
qed

text \<open>The current controller is always one of the controllers created.\<close>

lemma controller_ok_simps [simp]:
  "controller_ok (emit es s) = controller_ok s"
  "controller_ok (removeSuggestionIfDisplayed r s) = controller_ok s"
  "controller_ok (s\<lparr>disableSelectionEvent := f\<rparr>) = controller_ok s"
  "controller_ok (s\<lparr>timer := tm\<rparr>) = controller_ok s"
  "controller_ok (s\<lparr>pending := ps\<rparr>) = controller_ok s"
  "controller_ok (s\<lparr>windowSelection := ws\<rparr>) = controller_ok s"
  "controller_ok (s\<lparr>disableAutocomplete := da\<rparr>) = controller_ok s"
  "controller_ok (s\<lparr>now := n\<rparr>) = controller_ok s"
  "controller_ok (s\<lparr>drift := ds\<rparr>) = controller_ok s"
  "controller_ok (s\<lparr>suggestionCache := c\<rparr>) = controller_ok s"
  "controller_ok (clearTimerAndAbortFetch s) = controller_ok s"
  by (simp_all add: controller_ok_def clearTimerAndAbortFetch_def)

lemma display_controller_frame [simp]:
  "controllers (showSuggestionAtCaret_display L t b s) = controllers s"
  "abortController (showSuggestionAtCaret_display L t b s) = abortController s"
  by (auto simp: showSuggestionAtCaret_display_def Let_def insert_suggestion
        split: sum.splits option.splits)

lemma controller_ok_begin:
  assumes "showSuggestionAtCaret_begin g s = (s', k)" and "controller_ok s"
  shows "controller_ok s'"
  using assms
  by (auto simp: showSuggestionAtCaret_begin_def Let_def split_beta controller_ok_def
        split: sum.splits if_splits provider.splits)

lemma controller_ok_resume:
  assumes "controller_ok s"
  shows "controller_ok (showSuggestionAtCaret_resume p r s)"
  using assms by (auto simp: showSuggestionAtCaret_resume_def controller_ok_def split: sum.splits)

lemma controller_ok_handleInput:
  assumes "controller_ok s"
  shows "controller_ok (handleInput d s)"
  using assms
  by (auto simp: handleInput_def Let_def controller_ok_resume
        split: option.splits prod.splits dest: controller_ok_begin)

lemma controller_ok_handleKeyDown:
  assumes "controller_ok s"
  shows "controller_ok (handleKeyDown k s)"
  using assms handleKeyDown_frame(1,2) [of k s] by (simp add: controller_ok_def)

lemma controller_ok_handleSelection:
  assumes "controller_ok s"
  shows "controller_ok (handleSelection s)"
  using assms
  by (auto simp: handleSelection_def Let_def split: option.splits sum.splits)

lemma controller_ok_timerFires:
  assumes "controller_ok s"
  shows "controller_ok (timerFires s)"
  using assms
  by (auto simp: timerFires_def Let_def split: prod.splits option.splits
        dest: controller_ok_begin)

lemma controller_ok_step:
  assumes "controller_ok s"
  shows "controller_ok (step e s)"
  using assms
  by (cases e)
     (auto simp: controller_ok_handleInput controller_ok_handleKeyDown
        controller_ok_handleSelection controller_ok_timerFires controller_ok_resume
        handleBlur_def settle_def split: option.splits)

lemma controller_ok_run:
  assumes "controller_ok s"
  shows "controller_ok (run es s)"
  using assms by (induction es arbitrary: s) (simp_all add: controller_ok_step)

lemma controller_ok_init: "controller_ok (init b d)"
  by (simp add: controller_ok_def init_def)

subsection \<open>Caret-text extraction when the caret is unavailable\<close>

text \<open>
  The three early returns of the code: \<^verbatim>\<open>window.getSelection()\<close> is \<^verbatim>\<open>null\<close>, the
  selection is not collapsed, \<^verbatim>\<open>range.setStart(element, 0)\<close> raises. In each the
  empty string is returned.
\<close>

lemma guarded_cases_give_empty_text:
  assumes "ws = None
         \<or> (\<exists>sel. ws = Some sel \<and> \<not> isCollapsed sel)
         \<or> (\<exists>sel rng. ws = Some sel \<and> isCollapsed sel
                \<and> getRangeAt sel 0 = Inr rng \<and> setStartThrows rng)"
  shows "getTextUptilCaretInElement ws = Inr []"
  using assms
  by (auto simp: getTextUptilCaretInElement_def getCaretAsRange_def)

text \<open>
  Claim C9. When the caret cannot be resolved to a collapsed position inside the
  surface (no selection exists, or the selection is a range, or the start of the range
  cannot be anchored to the element), \<open>getTextUptilCaretInElement\<close> returns the empty
  string and never throws. The code misses one case of it: a selection object that
  exists and holds no range (nothing is selected) reports itself collapsed, passes both
  guards of \<open>getCaretAsRange\<close>, and \<^verbatim>\<open>getRangeAt(0)\<close> raises outside the \<^verbatim>\<open>try\<close>,
  where the documentation of \<open>getCaretAsRange\<close> promises \<^verbatim>\<open>null\<close> for a caret that
  is not available.
\<close>

theorem empty_selection_raises:
  "getTextUptilCaretInElement
     (Some \<lparr>isCollapsed = True, ranges = [], anchorNode = NullNode, anchorOffset = 0\<rparr>)
   = Inl IndexSizeError"
  by (simp add: getTextUptilCaretInElement_def getCaretAsRange_def getRangeAt_def)

subsection \<open>The debounce delay cannot be zero\<close>

text \<open>
  Claim C10. If the \<^verbatim>\<open>debounceTime\<close> prop is 0 (or absent), the delay with which
  \<open>handleSelection\<close> schedules the fetch is the default 1000 ms: the default is applied
  by a falsy check, so no caller can configure a delay of zero.
\<close>

theorem zero_debounce_is_default:
  assumes "debounceTime s = None \<or> debounceTime s = Some 0"
    and "\<not> disableAutocomplete s" and "\<not> disableSelectionEvent s"
    and "windowSelection s = Some sel" and "isCollapsed sel" and "isCaretAtLineEnd sel = Inr True"
  shows "DEBOUNCE_TIME (debounceTime s) = 1000
       \<and> timer (handleSelection s) = Some 1000
       \<and> DEBOUNCE_TIME d \<noteq> 0"
  using assms
  by (auto simp: DEBOUNCE_TIME_def handleSelection_def clearTimerAndAbortFetch_def
        removeSuggestionIfDisplayed_def emit_def split: option.splits)

theorem zero_debounce_is_default_witness:
  "DEBOUNCE_TIME (debounceTime (step (SetSelection (Some (caretAfter ''hi''))) (init False (Some 0)))) = 1000
   \<and> timer (handleSelection (step (SetSelection (Some (caretAfter ''hi''))) (init False (Some 0)))) = Some 1000
   \<and> DEBOUNCE_TIME (Some 0) \<noteq> 0"
  using zero_debounce_is_default
          [of "step (SetSelection (Some (caretAfter ''hi''))) (init False (Some 0))"
              "caretAfter ''hi''" "Some 0"]
  by (simp add: init_def caretAfter_def isCaretAtLineEnd_def)

subsection \<open>A stale result is discarded\<close>

text \<open>
  Claim C8. For a fetch issued for leading text \<open>L\<close>: if, when the fetch resolves, the
  text preceding the caret is no longer \<open>L\<close>, no suggestion is displayed and no
  \<^verbatim>\<open>onSuggestionShown\<close> notification fires, even when the resolved text is not empty.
  The text is read again when the promise is fulfilled and compared with the one kept
  by the pending call (\<open>begin_pending_leading\<close>).
\<close>

theorem stale_result_is_discarded:
  assumes "find (\<lambda>q. signal q = c) (pending s) = Some p"
    and "getTextUptilCaretInElement (windowSelection s) = Inr current"
    and "current \<noteq> textUptilCaret p"
  shows "markers (step (Fulfilled c t) s) = markers s
       \<and> trace (step (Fulfilled c t) s) = trace s"
  using assms
  by (simp add: settle_def showSuggestionAtCaret_resume_def display_stale)

theorem stale_result_is_discarded_witness:
  "markers (step (Fulfilled 1 ''world'')
             (step (SetSelection (Some (caretAfter ''hello there''))) (fetching ''hello ''))) = []
   \<and> trace (step (Fulfilled 1 ''world'')
               (step (SetSelection (Some (caretAfter ''hello there''))) (fetching ''hello '')))
       = [GetSuggestionCalled ''hello '' 1]"
  using stale_result_is_discarded
    [of 1 "step (SetSelection (Some (caretAfter ''hello there''))) (fetching ''hello '')"
        "\<lparr>signal = 1, textUptilCaret = ''hello '', timeBefore = 0\<rparr>" "''hello there''" "''world''"]
  by (simp add: fetching_eval caretAfter_def getTextUptilCaretInElement_def getCaretAsRange_def
        getRangeAt_def replace_nbsp_def)

subsection \<open>A provider that fails\<close>

text \<open>
  Claim C2, as stated: when the cache misses and the supplied \<^verbatim>\<open>getSuggestion\<close>
  throws or rejects, the error is caught inside the engine and treated identically to
  an empty result, and never propagates out of the engine. It is not caught: the
  rejection leaves \<^verbatim>\<open>showSuggestionAtCaret\<close>, which an empty result does not.
\<close>

theorem provider_failure_counterexample:
  "Uncaught (ProviderError ''503'') \<in> set (trace (step (Rejected 1 ''503'') (fetching ''hello '')))
   \<and> step (Rejected 1 ''503'') (fetching ''hello '') \<noteq> step (Fulfilled 1 []) (fetching ''hello '')"
  by (simp add: fetching_eval settle_def showSuggestionAtCaret_resume_def emit_def replace_nbsp_def)

text \<open>
  Claim C2, amended: when the cache misses and the supplied \<^verbatim>\<open>getSuggestion\<close> throws
  or rejects, no suggestion is shown, nothing is written to the cache and no callback
  is called, as for an empty result; the error itself is not caught: the promise of
  \<^verbatim>\<open>showSuggestionAtCaret\<close> is rejected with it, and nothing handles that rejection.
\<close>

theorem provider_failure_is_uncaught:
  assumes "find (\<lambda>q. signal q = c) (pending s) = Some p"
  shows "step (Rejected c e) s = emit [Uncaught (ProviderError e)] (step (Fulfilled c []) s)
       \<and> markers (step (Rejected c e) s) = markers s
       \<and> suggestionCache (step (Rejected c e) s) = suggestionCache s
       \<and> trace (step (Rejected c e) s) = trace s @ [Uncaught (ProviderError e)]"
  using assms
  by (simp add: settle_def showSuggestionAtCaret_resume_def)

theorem provider_failure_is_uncaught_witness:
  "step (Rejected 1 ''503'') (fetching ''hello '')
     = emit [Uncaught (ProviderError ''503'')] (step (Fulfilled 1 []) (fetching ''hello ''))
   \<and> markers (step (Rejected 1 ''503'') (fetching ''hello '')) = []
   \<and> suggestionCache (step (Rejected 1 ''503'') (fetching ''hello '')) = []
   \<and> trace (step (Rejected 1 ''503'') (fetching ''hello ''))
       = [GetSuggestionCalled ''hello '' 1, Uncaught (ProviderError ''503'')]"
  using provider_failure_is_uncaught
    [of 1 "fetching ''hello ''" "\<lparr>signal = 1, textUptilCaret = ''hello '', timeBefore = 0\<rparr>" "''503''"]
  by (simp add: fetching_eval replace_nbsp_def settle_def showSuggestionAtCaret_resume_def emit_def)

subsection \<open>A cache hit never reaches the provider\<close>

text \<open>
  Claim C7, as stated: for every request whose extracted preceding text has an entry in
  the suggestion cache, the supplied \<^verbatim>\<open>getSuggestion\<close> is not invoked at all, and the
  latency reported in the resulting \<^verbatim>\<open>onSuggestionShown\<close> notification is 0. The
  code has no case for a hit: the latency is the difference of two reads of the clock,
  one before the lookup and one after it, and is 3 when the clock moves by 3 between
  them. The suggestion for \<open>hello\<close> and a space is in the cache; the caret settles
  there again and the timer fires.
\<close>

theorem cache_hit_latency_counterexample:
  "trace (run [Select, SetDrift [3], TimerFires] displayed)
     = trace displayed
         @ [OnSuggestionRejected 0 120 IMPLICIT,
            OnSuggestionShown 1 123 3 ''world'' ''hello '']"
  by (simp add: displayed_eval engine_defs Let_def)

text \<open>
  Claim C7, amended: for every request whose extracted preceding text has an entry in
  the suggestion cache, the supplied \<^verbatim>\<open>getSuggestion\<close> is not invoked at all, and the
  latency reported in the resulting \<^verbatim>\<open>onSuggestionShown\<close> notification is the
  difference of the two reads of the clock before and after the cache lookup, with no
  \<^verbatim>\<open>await\<close> between them: the time the clock moved during the lookup, which is 0
  when it did not move. The state is any state the component can reach, where the
  cache holds no empty text.
\<close>

theorem cache_hit_skips_provider:
  assumes "s = run es (init b d)"
    and "getTextUptilCaretInElement (windowSelection s) = Inr L"
    and "L \<in> fst ` set (suggestionCache s)"
    and "showSuggestionAtCaret_begin GetSuggestionProp s = (s', k)"
  shows "k = None
       \<and> (\<forall>key c. GetSuggestionCalled key c \<notin> set (drop (length (trace s)) (trace s')))
       \<and> (\<forall>i shown l t ld. OnSuggestionShown i shown l t ld \<in> set (drop (length (trace s)) (trace s'))
             \<longrightarrow> l = int (nextDrift s))"
proof -
  from assms(3) obtain t where t: "map_of (suggestionCache s) L = Some t"
    by (metis domD dom_map_of_conv_image_fst)
  have "cache_ok s"
    using assms(1) cache_ok_run cache_ok_init by simp
  with t have ne: "t \<noteq> []"
    by (auto simp: cache_ok_def dest!: map_of_SomeD)
  let ?s2 = "(removeSuggestionIfDisplayed SYSTEM s)
                 \<lparr>windowSelection := selectionAfterRead (windowSelection s),
                  suggestionCache := (L, t) # filter (\<lambda>p. fst p \<noteq> L) (suggestionCache s)\<rparr>"
  have eq: "s' = showSuggestionAtCaret_display L t (now s) ?s2" and k: "k = None"
    using begin_hit [OF assms(2) t ne, of GetSuggestionProp] assms(4) by simp_all
  have base: "trace ?s2 = trace s" "now ?s2 = now s" "nextDrift ?s2 = nextDrift s"
    by (simp_all add: remove_trace nextDrift_def)
  have again: "getTextUptilCaretInElement (windowSelection ?s2) = Inr L"
    using read_twice [OF assms(2)] by simp
  have "trace s' = trace s
      \<or> trace s' = trace s @ [OnSuggestionShown (uuid ?s2) (now s + nextDrift s)
                                 (int (nextDrift s)) t L]"
    using display_no_throw [OF again, of L t "now s"] base unfolding eq by simp
  with k show ?thesis by auto
qed

theorem cache_hit_skips_provider_witness:
  "snd (showSuggestionAtCaret_begin GetSuggestionProp (run [Select, SetDrift [3]] displayed)) = None
   \<and> trace (fst (showSuggestionAtCaret_begin GetSuggestionProp (run [Select, SetDrift [3]] displayed)))
       = trace (run [Select, SetDrift [3]] displayed)
           @ [OnSuggestionShown 1 123 3 ''world'' ''hello '']"
proof -
  let ?es = "[SetSelection (Some (caretAfter ''hello '')), Select, TimerFires, Tick 120,
              Fulfilled 1 ''world'', Select, SetDrift [3]]"
  let ?s = "run ?es (init False None)"
  have s: "?s = run [Select, SetDrift [3]] displayed"
    by (simp add: displayed_def)
  have h2: "getTextUptilCaretInElement (windowSelection ?s) = Inr ''hello ''"
    unfolding s by (simp add: displayed_eval engine_defs)
  have h3: "''hello '' \<in> fst ` set (suggestionCache ?s)"
    unfolding s by (simp add: displayed_eval engine_defs)
  have h4: "showSuggestionAtCaret_begin GetSuggestionProp ?s
             = (fst (showSuggestionAtCaret_begin GetSuggestionProp ?s),
                snd (showSuggestionAtCaret_begin GetSuggestionProp ?s))"
    by simp
  have "snd (showSuggestionAtCaret_begin GetSuggestionProp ?s) = None"
    using cache_hit_skips_provider [OF refl h2 h3 h4] by blast
  moreover have "trace (fst (showSuggestionAtCaret_begin GetSuggestionProp ?s))
       = trace ?s @ [OnSuggestionShown 1 123 3 ''world'' ''hello '']"
    unfolding s by (simp add: displayed_eval engine_defs Let_def)
  ultimately show ?thesis
    unfolding s by simp
qed

subsection \<open>Partial acceptance: the removal\<close>

text \<open>
  Claim C1, as stated: when a suggestion with text \<open>t\<close> is displayed and an input event
  carries typed data \<open>d\<close> that is a non-empty prefix of \<open>t\<close>, the displayed marker is
  removed as an internal removal and no \<^verbatim>\<open>onSuggestionRejected\<close> notification is
  emitted for it. \<open>handleInput\<close> removes it with the reason \<^verbatim>\<open>IMPLICIT\<close>, and the
  notification is emitted: \<open>world\<close> is displayed, the user types \<open>w\<close>.
\<close>

theorem partial_acceptance_counterexample:
  "trace (run [SetSelection (Some (caretAfter ''hello w'')), Input (Some ''w'')] displayed)
     = trace displayed
         @ [OnSuggestionRejected 0 120 IMPLICIT, OnContentChange [],
            OnSuggestionShown 1 120 0 ''orld'' ''hello w'']"
  by (simp add: displayed_eval engine_defs Let_def)

text \<open>
  Claim C1, amended: in the partial-acceptance case the engine removes every displayed
  marker with the reason implicit: one \<^verbatim>\<open>onSuggestionRejected\<close> notification with
  reason implicit is emitted for each removed marker, then \<^verbatim>\<open>onContentChange\<close>; what
  follows (the re-display of the remainder) emits no rejected notification.
\<close>

theorem partial_acceptance_rejects_implicitly:
  assumes "\<not> disableAutocomplete s" and "markers s = (i, t) # ms" and "d \<noteq> []" and "prefix d t"
  shows "\<exists>rest. trace (handleInput (Some d) s)
                 = trace s @ map (\<lambda>m. OnSuggestionRejected (fst m) (now s) IMPLICIT) (markers s)
                     @ OnContentChange [] # rest
               \<and> (\<forall>j tm r. OnSuggestionRejected j tm r \<notin> set rest)"
proof -
  let ?s2 = "emit [OnContentChange []] (removeSuggestionIfDisplayed IMPLICIT s)"
  have t2: "trace ?s2 = trace s @ map (\<lambda>m. OnSuggestionRejected (fst m) (now s) IMPLICIT) (markers s)
                     @ [OnContentChange []]"
    by (simp add: remove_trace)
  show ?thesis
  proof (cases "drop (length d) t = []")
    case True
    then have "handleInput (Some d) s = ?s2"
      using handleInput_partial [OF assms] by (simp add: Let_def)
    with t2 show ?thesis by simp
  next
    case False
    from redisplay_quiet [of "drop (length d) t" ?s2] obtain es where
      es: "trace (handleInput (Some d) s) = trace ?s2 @ es" "quiet es"
      using handleInput_partial [OF assms] False by (auto simp: Let_def)
    have "\<forall>j tm r. OnSuggestionRejected j tm r \<notin> set es"
      using es(2) by (auto simp: quiet_def)
    with es(1) t2 show ?thesis by simp
  qed
qed

theorem partial_acceptance_rejects_implicitly_witness:
  "\<exists>rest. trace (handleInput (Some ''w'') (step (SetSelection (Some (caretAfter ''hello w''))) displayed))
           = trace (step (SetSelection (Some (caretAfter ''hello w''))) displayed)
               @ map (\<lambda>m. OnSuggestionRejected (fst m) 120 IMPLICIT) [(0, ''world'')]
               @ OnContentChange [] # rest
         \<and> (\<forall>j tm r. OnSuggestionRejected j tm r \<notin> set rest)"
  using partial_acceptance_rejects_implicitly
    [of "step (SetSelection (Some (caretAfter ''hello w''))) displayed" 0 "''world''" "[]" "''w''"]
  by (simp add: displayed_eval)

subsection \<open>Partial acceptance: the re-display\<close>

text \<open>
  Claim C3, as stated: in the partial-acceptance transition, if the remainder of the
  suggestion is not empty, exactly that remainder is re-displayed, with no cache lookup,
  no cache write and no invocation of the external fetch function. The re-display runs
  \<^verbatim>\<open>showSuggestionAtCaret\<close> with a closure that returns the remainder: the cache is
  looked up under the text now before the caret. On a miss the remainder is written to
  the cache (first conjunct: \<open>world\<close> is displayed behind \<open>hello\<close>, the user types
  \<open>w\<close>); on a hit the cached text is displayed, not the remainder (second conjunct: the
  cache already holds \<open>onderful\<close> for the text the user arrives at).
\<close>

theorem redisplay_counterexample:
  "suggestionCache (run [SetSelection (Some (caretAfter ''hello w'')), Input (Some ''w'')] displayed)
     = [(''hello w'', ''orld''), (''hello '', ''world'')]
   \<and> markers (run [SetSelection (Some (caretAfter ''hello w'')), Select, TimerFires,
                    Fulfilled 1 ''onderful'',
                    SetSelection (Some (caretAfter ''hello '')), Input None, Select, TimerFires,
                    Fulfilled 2 ''world'',
                    SetSelection (Some (caretAfter ''hello w'')), Input (Some ''w'')]
               (init False None))
     = [(2, ''onderful'')]"
  by (simp add: displayed_eval engine_defs Let_def)

text \<open>
  Claim C3, amended: in the partial-acceptance transition with a non-empty remainder
  the engine calls \<^verbatim>\<open>showSuggestionAtCaret\<close> with a provider that returns the
  remainder. The external fetch function is not invoked. The cache is looked up under
  the text before the caret; when that lookup misses and the caret is in the textbox,
  exactly the remainder is displayed at once as the new suggestion, and it is written
  to the cache under that text.
\<close>

theorem redisplay_goes_through_cache:
  assumes "\<not> disableAutocomplete s" and "markers s = (i, t) # ms" and "d \<noteq> []" and "prefix d t"
    and "drop (length d) t \<noteq> []"
  shows "(\<forall>key c. GetSuggestionCalled key c
             \<notin> set (drop (length (trace s)) (trace (handleInput (Some d) s))))
       \<and> (getCaretAsRange (windowSelection s) = Inr (Some rng) \<and> startInTextbox rng
            \<and> getTextUptilCaretInElement (windowSelection s) = Inr L
            \<and> map_of (suggestionCache s) L = None
          \<longrightarrow> markers (handleInput (Some d) s) = [(uuid s, drop (length d) t)]
              \<and> suggestionCache (handleInput (Some d) s)
                  = lru_set (suggestionCache s) L (drop (length d) t)
              \<and> (\<exists>shown l. trace (handleInput (Some d) s)
                    = trace s @ map (\<lambda>m. OnSuggestionRejected (fst m) (now s) IMPLICIT) (markers s)
                        @ [OnContentChange [],
                           OnSuggestionShown (uuid s) shown l (drop (length d) t) L]))"
proof -
  let ?s2 = "emit [OnContentChange []] (removeSuggestionIfDisplayed IMPLICIT s)"
  let ?r = "drop (length d) t"
  from redisplay_quiet [of ?r ?s2] obtain es where
    es: "trace (handleInput (Some d) s) = trace ?s2 @ es" "quiet es"
    using handleInput_partial [OF assms(1-4)] assms(5) by (auto simp: Let_def)
  have "drop (length (trace s)) (trace (handleInput (Some d) s))
          = map (\<lambda>m. OnSuggestionRejected (fst m) (now s) IMPLICIT) (markers s)
              @ OnContentChange [] # es"
    using es(1) by (simp add: remove_trace)
  then have first: "\<forall>key c. GetSuggestionCalled key c
             \<notin> set (drop (length (trace s)) (trace (handleInput (Some d) s)))"
    using es(2) by (auto simp: quiet_def)
  have second: "markers (handleInput (Some d) s) = [(uuid s, ?r)]
              \<and> suggestionCache (handleInput (Some d) s) = lru_set (suggestionCache s) L ?r
              \<and> (\<exists>shown l. trace (handleInput (Some d) s)
                    = trace s @ map (\<lambda>m. OnSuggestionRejected (fst m) (now s) IMPLICIT) (markers s)
                        @ [OnContentChange [], OnSuggestionShown (uuid s) shown l ?r L])"
    if miss: "getCaretAsRange (windowSelection s) = Inr (Some rng)" "startInTextbox rng"
      "getTextUptilCaretInElement (windowSelection s) = Inr L"
      "map_of (suggestionCache s) L = None"
  proof -
    have same: "selectionAfterRead (windowSelection s) = windowSelection s"
      using miss(1,2)
      by (auto simp: selectionAfterRead_def getCaretAsRange_def getRangeAt_def startInTextbox_def
            split: option.splits if_splits list.splits)
    show ?thesis
      using handleInput_partial [OF assms(1-4)] assms(5) miss same
      by (simp add: Let_def showSuggestionAtCaret_begin_def showSuggestionAtCaret_resume_def
            showSuggestionAtCaret_display_def insert_suggestion lru_get_def remove_trace)
  qed
  from first second show ?thesis by blast
qed

theorem redisplay_goes_through_cache_witness:
  "markers (handleInput (Some ''w'') (step (SetSelection (Some (caretAfter ''hello w''))) displayed))
     = [(1, ''orld'')]
   \<and> suggestionCache (handleInput (Some ''w'') (step (SetSelection (Some (caretAfter ''hello w''))) displayed))
     = lru_set [(''hello '', ''world'')] ''hello w'' ''orld''
   \<and> trace (handleInput (Some ''w'') (step (SetSelection (Some (caretAfter ''hello w''))) displayed))
     = [GetSuggestionCalled ''hello '' 1, OnSuggestionShown 0 120 120 ''world'' ''hello '',
        OnSuggestionRejected 0 120 IMPLICIT, OnContentChange [],
        OnSuggestionShown 1 120 0 ''orld'' ''hello w'']"
proof -
  let ?s = "step (SetSelection (Some (caretAfter ''hello w''))) displayed"
  let ?rng = "\<lparr>place = InTextbox, setStartThrows = False, innerText = ''hello w''\<rparr>"
  have miss: "getCaretAsRange (windowSelection ?s) = Inr (Some ?rng) \<and> startInTextbox ?rng
            \<and> getTextUptilCaretInElement (windowSelection ?s) = Inr ''hello w''
            \<and> map_of (suggestionCache ?s) ''hello w'' = None"
    by (simp add: displayed_eval caretAfter_def getCaretAsRange_def getRangeAt_def
          getTextUptilCaretInElement_def replace_nbsp_def startInTextbox_def)
  have "markers (handleInput (Some ''w'') ?s) = [(1, ''orld'')]
      \<and> suggestionCache (handleInput (Some ''w'') ?s)
          = lru_set [(''hello '', ''world'')] ''hello w'' ''orld''"
    using redisplay_goes_through_cache [of ?s 0 "''world''" "[]" "''w''" ?rng "''hello w''"] miss
    by (simp add: displayed_eval)
  moreover have "trace (handleInput (Some ''w'') ?s)
     = [GetSuggestionCalled ''hello '' 1, OnSuggestionShown 0 120 120 ''world'' ''hello '',
        OnSuggestionRejected 0 120 IMPLICIT, OnContentChange [],
        OnSuggestionShown 1 120 0 ''orld'' ''hello w'']"
    by (simp add: displayed_eval engine_defs Let_def)
  ultimately show ?thesis by simp
qed

subsection \<open>Cancellation of a pending fetch\<close>

text \<open>
  Claim C4, as stated: whenever a fetch is pending, each of a new debounce cycle, an
  explicit reject (Escape), a blur and an accept (Tab) signals cancellation to the
  in-flight call through its cancellation token and causes the eventual result of that
  call to be ignored rather than displayed. \<open>handleKeyDown\<close> does not touch the
  controller. With the call for \<open>a\<close> pending, after Escape the signal of the call is
  not aborted and its result \<open>x\<close> is displayed when it arrives. With the suggestion of
  call 1 displayed and call 3 pending, Tab accepts the suggestion and the signal of
  call 3 is not aborted.
\<close>

theorem cancellation_counterexample:
  "\<not> controllers (run [KeyDown Escape] (fetching ''a'')) ! 1
   \<and> markers (run [KeyDown Escape, Fulfilled 1 ''x''] (fetching ''a'')) = [(0, ''x'')]
   \<and> map signal (pending overlapping) = [2, 3]
   \<and> trace (run [KeyDown Tab] overlapping)
       = trace overlapping @ [OnSuggestionAccepted 0 0, OnContentChange []]
   \<and> map signal (pending (run [KeyDown Tab] overlapping)) = [2, 3]
   \<and> \<not> controllers (run [KeyDown Tab] overlapping) ! 3"
  by (simp add: fetching_eval overlapping_def engine_defs Let_def)

text \<open>
  Claim C4, amended: in every state the component reaches, a selection event that is
  processed (a new debounce cycle) and a blur call \<^verbatim>\<open>abort()\<close> on the current
  controller, the one created for the call issued last, and a blur also clears the
  timer; Escape and Tab, also a Tab that accepts a displayed suggestion, leave the
  controllers, the timer and the pending calls as they are. The engine never reads the
  signal: what the continuation of a call does with its result is the same whatever the
  aborted flags of the controllers are.
\<close>

theorem cancellation_is_signalled_by_selection_and_blur_only:
  assumes "s = run es (init b d)"
  shows "controllers (handleBlur s) ! abortController s \<and> timer (handleBlur s) = None
       \<and> (\<not> disableAutocomplete s \<and> \<not> disableSelectionEvent s
            \<longrightarrow> controllers (handleSelection s) ! abortController s)
       \<and> controllers (handleKeyDown k s) = controllers s
       \<and> abortController (handleKeyDown k s) = abortController s
       \<and> timer (handleKeyDown k s) = timer s
       \<and> pending (handleKeyDown k s) = pending s
       \<and> showSuggestionAtCaret_resume p r (s\<lparr>controllers := cs\<rparr>)
            = (showSuggestionAtCaret_resume p r s)\<lparr>controllers := cs\<rparr>"
proof -
  have ok: "abortController s < length (controllers s)"
    using assms controller_ok_run [OF controller_ok_init] by (simp add: controller_ok_def)
  have blur: "controllers (handleBlur s) ! abortController s \<and> timer (handleBlur s) = None"
    using ok by (simp add: handleBlur_def clearTimerAndAbortFetch_def)
  have sel: "controllers (handleSelection s) ! abortController s"
    if "\<not> disableAutocomplete s" "\<not> disableSelectionEvent s"
    using ok that
    by (auto simp: handleSelection_def clearTimerAndAbortFetch_def Let_def
          split: option.splits sum.splits)
  from blur sel handleKeyDown_frame [of k s] resume_controllers
  show ?thesis by simp
qed

theorem cancellation_is_signalled_by_selection_and_blur_only_witness:
  "controllers (handleBlur (fetching ''a'')) ! 1 \<and> timer (handleBlur (fetching ''a'')) = None
   \<and> controllers (handleSelection (fetching ''a'')) ! 1
   \<and> controllers (handleKeyDown Escape (fetching ''a'')) = [True, False]
   \<and> abortController (handleKeyDown Escape (fetching ''a'')) = 1
   \<and> timer (handleKeyDown Escape (fetching ''a'')) = None
   \<and> pending (handleKeyDown Escape (fetching ''a''))
        = [\<lparr>signal = 1, textUptilCaret = ''a'', timeBefore = 0\<rparr>]
   \<and> showSuggestionAtCaret_resume \<lparr>signal = 1, textUptilCaret = ''a'', timeBefore = 0\<rparr> (Inr ''x'')
        ((fetching ''a'')\<lparr>controllers := [True, True]\<rparr>)
      = (showSuggestionAtCaret_resume \<lparr>signal = 1, textUptilCaret = ''a'', timeBefore = 0\<rparr> (Inr ''x'')
           (fetching ''a''))\<lparr>controllers := [True, True]\<rparr>"
proof -
  have reached: "fetching ''a''
                   = run [SetSelection (Some (caretAfter ''a'')), Select, TimerFires] (init False None)"
    by (simp only: fetching_def)
  from cancellation_is_signalled_by_selection_and_blur_only
         [OF reached, of Escape "\<lparr>signal = 1, textUptilCaret = ''a'', timeBefore = 0\<rparr>"
            "Inr ''x''" "[True, True]"]
  show ?thesis
    by (simp add: fetching_eval replace_nbsp_def)
qed

subsection \<open>Disabling autocomplete\<close>

text \<open>
  Claim C5, as stated: at any time the \<^verbatim>\<open>disableAutocomplete\<close> flag is set, any
  displayed suggestion is immediately removed and reported as an implicit rejection, and
  any live debounce timer or pending fetch is torn down; while the flag remains set no
  new suggestion is ever displayed. Nothing in the component reacts to the flag being
  set: the displayed \<open>world\<close> stays and no callback is called; a call pending when the
  flag is set displays its result while the flag is set; a timer armed before stays
  live, and when it fires the provider is called.
\<close>

theorem disabling_counterexample:
  "markers (run [SetDisableAutocomplete True] displayed) = [(0, ''world'')]
   \<and> trace (run [SetDisableAutocomplete True] displayed) = trace displayed
   \<and> disableAutocomplete (run [SetDisableAutocomplete True, Fulfilled 1 ''world''] (fetching ''hello ''))
   \<and> markers (run [SetDisableAutocomplete True, Fulfilled 1 ''world''] (fetching ''hello ''))
        = [(0, ''world'')]
   \<and> timer (run [SetDisableAutocomplete True] armed) = Some 1000
   \<and> pending (run [SetDisableAutocomplete True, TimerFires] armed)
        = [\<lparr>signal = 1, textUptilCaret = ''hello '', timeBefore = 0\<rparr>]"
  by (simp add: displayed_eval fetching_eval armed_def engine_defs Let_def)

text \<open>
  Claim C5, amended: setting \<^verbatim>\<open>disableAutocomplete\<close> removes no suggestion, emits no
  rejection and tears down neither the timer nor a pending fetch. While the flag is
  set, \<open>handleKeyDown\<close> and \<open>handleSelection\<close> return at once and \<open>handleInput\<close> only
  reports the content; a blur still removes every marker as an implicit rejection and
  clears the timer.
\<close>

theorem disabling_tears_nothing_down:
  assumes "disableAutocomplete s"
  shows "handleKeyDown k s = s \<and> handleSelection s = s
       \<and> handleInput d s = emit [OnContentChange (markers s)] s
       \<and> markers (handleBlur s) = [] \<and> timer (handleBlur s) = None
       \<and> trace (handleBlur s)
            = trace s @ map (\<lambda>m. OnSuggestionRejected (fst m) (now s) IMPLICIT) (markers s)
       \<and> markers (step (SetDisableAutocomplete b) s0) = markers s0
       \<and> trace (step (SetDisableAutocomplete b) s0) = trace s0
       \<and> timer (step (SetDisableAutocomplete b) s0) = timer s0
       \<and> pending (step (SetDisableAutocomplete b) s0) = pending s0
       \<and> controllers (step (SetDisableAutocomplete b) s0) = controllers s0"
  using assms
  by (simp add: handleKeyDown_def handleSelection_def handleInput_def handleBlur_def
        clearTimerAndAbortFetch_def remove_trace)

theorem disabling_tears_nothing_down_witness:
  "handleKeyDown Escape (step (SetDisableAutocomplete True) displayed)
     = step (SetDisableAutocomplete True) displayed
   \<and> handleSelection (step (SetDisableAutocomplete True) displayed)
     = step (SetDisableAutocomplete True) displayed
   \<and> handleInput (Some ''w'') (step (SetDisableAutocomplete True) displayed)
     = emit [OnContentChange [(0, ''world'')]] (step (SetDisableAutocomplete True) displayed)
   \<and> markers (handleBlur (step (SetDisableAutocomplete True) displayed)) = []
   \<and> timer (handleBlur (step (SetDisableAutocomplete True) displayed)) = None
   \<and> trace (handleBlur (step (SetDisableAutocomplete True) displayed))
       = trace displayed @ [OnSuggestionRejected 0 120 IMPLICIT]
   \<and> markers (step (SetDisableAutocomplete True) displayed) = [(0, ''world'')]
   \<and> trace (step (SetDisableAutocomplete True) displayed) = trace displayed
   \<and> timer (step (SetDisableAutocomplete True) displayed) = None
   \<and> pending (step (SetDisableAutocomplete True) displayed) = []
   \<and> controllers (step (SetDisableAutocomplete True) displayed) = [True, False]"
  using disabling_tears_nothing_down
    [of "step (SetDisableAutocomplete True) displayed" Escape "Some ''w''" True displayed]
  by (simp add: displayed_eval)

subsection \<open>At most one suggestion\<close>

text \<open>
  Claim C6. For any sequence of surface events at most one suggestion marker is
  materialized at any time; if the surface reports more than one, all are removed in a
  single removal (\<open>remove_fields\<close>: after \<open>removeSuggestionIfDisplayed\<close> no marker is
  left). The first half fails on the code, whose own comment in
  \<^verbatim>\<open>removeSuggestionIfDisplayed\<close> calls it a bug: two calls of the provider can be
  pending for the same leading text, and each result is inserted without a removal in
  between. The user types \<open>a\<close> and pauses (call 1), types \<open>b\<close> and pauses (call 2),
  deletes \<open>b\<close> and pauses (call 3, the cache still misses); the provider ignores the
  abort signals; calls 1 and 3 are fulfilled.
\<close>

theorem two_suggestions_materialized:
  "markers (run [SetSelection (Some (caretAfter ''a'')), Input (Some ''a''), Select, TimerFires,
                 SetSelection (Some (caretAfter ''ab'')), Input (Some ''b''), Select, TimerFires,
                 SetSelection (Some (caretAfter ''a'')), Input None, Select, TimerFires,
                 Fulfilled 1 ''x'', Fulfilled 3 ''y''] (init False None))
     = [(1, ''y''), (0, ''x'')]"
  by (simp add: engine_defs Let_def)

end
